theory Spec2Isabelle
  imports Main "HOL-Library.Word"
begin

section \<open>Data model of the task store\<close>

text \<open>
  The renderer's task store (\<^verbatim>\<open>renderer/stores/task-store.ts\<close>) keeps a list of
  tasks and updates it with pure functions passed to \<^verbatim>\<open>set\<close>. The TypeScript
  string-literal unions become datatypes; their constructors carry a prefix because
  several unions share literals (\<^verbatim>\<open>'in_progress'\<close>, \<^verbatim>\<open>'completed'\<close>, \<^verbatim>\<open>'failed'\<close>).
  An optional property (\<^verbatim>\<open>f?: T\<close>) is an \<open>option\<close>: \<open>None\<close> is \<^verbatim>\<open>undefined\<close>.
  Record fields that would clash between records, or with a HOL constant, carry the
  record's name as a prefix (\<open>task_id\<close> for \<^verbatim>\<open>Task.id\<close>).
\<close>

datatype TaskStatus = TS_backlog | TS_in_progress | TS_ai_review | TS_human_review | TS_done

datatype ReviewReason = RR_completed | RR_errors | RR_qa_issues

datatype ChunkStatus = CS_pending | CS_in_progress | CS_completed | CS_failed

datatype ExecutionPhase =
  EP_idle | EP_planning | EP_coding | EP_qa_review | EP_qa_fixing | EP_complete | EP_failed

record Chunk =
  chunk_id :: string
  chunk_title :: string
  chunk_description :: string
  chunk_status :: ChunkStatus
  files :: "string list"
  verification :: "string option"

text \<open>The chunks of an implementation plan, as the store reads them.\<close>

record PlanChunk =
  pc_id :: string
  pc_description :: string
  pc_status :: ChunkStatus
  pc_verification :: "string option"

record PlanPhase =
  phase_chunks :: "PlanChunk list"

record ImplementationPlan =
  feature :: "string option"
  phases :: "PlanPhase list"

record ExecutionProgress =
  phase :: ExecutionPhase
  phaseProgress :: int
  overallProgress :: int
  currentChunk :: "string option"
  message :: "string option"

record TaskMetadata =
  sourceType :: "string option"
  category :: "string option"
  priority :: "string option"
  complexity :: "string option"
  impact :: "string option"

text \<open>Dates are milliseconds since the epoch; \<^verbatim>\<open>new Date()\<close> is the parameter \<open>now\<close>.\<close>

record Task =
  task_id :: string
  specId :: string
  title :: string
  task_description :: string
  task_status :: TaskStatus
  reviewReason :: "ReviewReason option"
  chunks :: "Chunk list option"
  executionProgress :: "ExecutionProgress option"
  metadata :: "TaskMetadata option"
  logs :: "string list option"
  createdAt :: int
  updatedAt :: int

record TaskState =
  tasks :: "Task list"
  selectedTaskId :: "string option"
  isLoading :: bool
  error :: "string option"

section \<open>Store actions\<close>

text \<open>\<^verbatim>\<open>t.id === taskId || t.specId === taskId\<close>\<close>

definition matches :: "string \<Rightarrow> Task \<Rightarrow> bool" where
  "matches taskId t = (task_id t = taskId \<or> specId t = taskId)"

subsection \<open>updateTaskStatus\<close>

definition updateTaskStatus :: "string \<Rightarrow> TaskStatus \<Rightarrow> int \<Rightarrow> TaskState \<Rightarrow> TaskState" where
  "updateTaskStatus taskId status now state =
     state\<lparr>tasks :=
       map (\<lambda>t. if matches taskId t then t\<lparr>task_status := status, updatedAt := now\<rparr> else t)
         (tasks state)\<rparr>"

subsection \<open>updateTaskFromPlan\<close>

text \<open>\<^verbatim>\<open>plan.phases.flatMap((phase) => phase.chunks.map((chunk) => ({...})))\<close>\<close>

definition toChunk :: "PlanChunk \<Rightarrow> Chunk" where
  "toChunk chunk =
     \<lparr>chunk_id = pc_id chunk,
      chunk_title = pc_description chunk,
      chunk_description = pc_description chunk,
      chunk_status = pc_status chunk,
      files = [],
      verification = pc_verification chunk\<rparr>"

definition planChunks :: "ImplementationPlan \<Rightarrow> Chunk list" where
  "planChunks plan = concat (map (\<lambda>ph. map toChunk (phase_chunks ph)) (phases plan))"

definition hasStatus :: "ChunkStatus \<Rightarrow> Chunk \<Rightarrow> bool" where
  "hasStatus s c = (chunk_status c = s)"

text \<open>\<^verbatim>\<open>t.metadata?.sourceType === 'manual'\<close>\<close>

definition isManual :: "Task \<Rightarrow> bool" where
  "isManual t =
     (case metadata t of None \<Rightarrow> False | Some m \<Rightarrow> sourceType m = Some ''manual'')"

text \<open>
  The status and review reason the store derives for task \<open>t\<close> from the chunk list:
  the \<^verbatim>\<open>if\<close>/\<^verbatim>\<open>else if\<close> chain of \<^verbatim>\<open>updateTaskFromPlan\<close>, in its order.
\<close>

definition deriveStatus :: "Task \<Rightarrow> Chunk list \<Rightarrow> TaskStatus \<times> ReviewReason option" where
  "deriveStatus t cs =
     (let allCompleted = (length cs > 0 \<and> list_all (hasStatus CS_completed) cs);
          anyInProgress = list_ex (hasStatus CS_in_progress) cs;
          anyFailed = list_ex (hasStatus CS_failed) cs;
          anyCompleted = list_ex (hasStatus CS_completed) cs
      in if allCompleted then
           (if isManual t then TS_human_review else TS_ai_review,
            if isManual t then Some RR_completed else None)
         else if anyFailed then (TS_human_review, Some RR_errors)
         else if anyInProgress \<or> anyCompleted then (TS_in_progress, None)
         else (task_status t, reviewReason t))"

text \<open>\<^verbatim>\<open>a || b\<close> on an optional string: an absent or empty string is falsy.\<close>

definition strOr :: "string option \<Rightarrow> string \<Rightarrow> string" where
  "strOr f d = (case f of None \<Rightarrow> d | Some s \<Rightarrow> if s = [] then d else s)"

definition planUpdate :: "ImplementationPlan \<Rightarrow> int \<Rightarrow> Task \<Rightarrow> Task" where
  "planUpdate plan now t =
     (let cs = planChunks plan; sr = deriveStatus t cs
      in t\<lparr>title := strOr (feature plan) (title t),
           chunks := Some cs,
           task_status := fst sr,
           reviewReason := snd sr,
           updatedAt := now\<rparr>)"

definition updateTaskFromPlan :: "string \<Rightarrow> ImplementationPlan \<Rightarrow> int \<Rightarrow> TaskState \<Rightarrow> TaskState" where
  "updateTaskFromPlan taskId plan now state =
     state\<lparr>tasks := map (\<lambda>t. if \<not> matches taskId t then t else planUpdate plan now t) (tasks state)\<rparr>"

subsection \<open>Object spread\<close>

text \<open>
  \<^verbatim>\<open>{ ...a, ...b }\<close> takes, for every key, \<open>b\<close>'s value when \<open>b\<close> has the key and \<open>a\<close>'s
  otherwise. A \<^verbatim>\<open>Partial<T>\<close> is a record of options, \<open>None\<close> for a key that is not
  there; a key of an optional property, when there, carries an optional value.
\<close>

definition spread :: "'a \<Rightarrow> 'a option \<Rightarrow> 'a" where
  "spread old upd = (case upd of None \<Rightarrow> old | Some v \<Rightarrow> v)"

subsection \<open>updateTask\<close>

record TaskUpdates =
  u_id :: "string option"
  u_specId :: "string option"
  u_title :: "string option"
  u_description :: "string option"
  u_status :: "TaskStatus option"
  u_reviewReason :: "ReviewReason option option"
  u_chunks :: "Chunk list option option"
  u_executionProgress :: "ExecutionProgress option option"
  u_metadata :: "TaskMetadata option option"
  u_logs :: "string list option option"
  u_createdAt :: "int option"
  u_updatedAt :: "int option"

text \<open>\<^verbatim>\<open>{ ...t, ...updates }\<close>\<close>

definition applyUpdates :: "TaskUpdates \<Rightarrow> Task \<Rightarrow> Task" where
  "applyUpdates updates t =
     \<lparr>task_id = spread (task_id t) (u_id updates),
      specId = spread (specId t) (u_specId updates),
      title = spread (title t) (u_title updates),
      task_description = spread (task_description t) (u_description updates),
      task_status = spread (task_status t) (u_status updates),
      reviewReason = spread (reviewReason t) (u_reviewReason updates),
      chunks = spread (chunks t) (u_chunks updates),
      executionProgress = spread (executionProgress t) (u_executionProgress updates),
      metadata = spread (metadata t) (u_metadata updates),
      logs = spread (logs t) (u_logs updates),
      createdAt = spread (createdAt t) (u_createdAt updates),
      updatedAt = spread (updatedAt t) (u_updatedAt updates)\<rparr>"

definition updateTask :: "string \<Rightarrow> TaskUpdates \<Rightarrow> TaskState \<Rightarrow> TaskState" where
  "updateTask taskId updates state =
     state\<lparr>tasks := map (\<lambda>t. if matches taskId t then applyUpdates updates t else t) (tasks state)\<rparr>"

subsection \<open>updateExecutionProgress\<close>

record ProgressUpdate =
  upd_phase :: "ExecutionPhase option"
  upd_phaseProgress :: "int option"
  upd_overallProgress :: "int option"
  upd_currentChunk :: "string option option"
  upd_message :: "string option option"

text \<open>The progress taken as existing when the task has none.\<close>

definition idleProgress :: ExecutionProgress where
  "idleProgress =
     \<lparr>phase = EP_idle, phaseProgress = 0, overallProgress = 0, currentChunk = None, message = None\<rparr>"

text \<open>\<^verbatim>\<open>{ ...existingProgress, ...progress }\<close>\<close>

definition mergeProgress :: "ExecutionProgress \<Rightarrow> ProgressUpdate \<Rightarrow> ExecutionProgress" where
  "mergeProgress existingProgress progress =
     \<lparr>phase = spread (phase existingProgress) (upd_phase progress),
      phaseProgress = spread (phaseProgress existingProgress) (upd_phaseProgress progress),
      overallProgress = spread (overallProgress existingProgress) (upd_overallProgress progress),
      currentChunk = spread (currentChunk existingProgress) (upd_currentChunk progress),
      message = spread (message existingProgress) (upd_message progress)\<rparr>"

definition existingProgressOf :: "Task \<Rightarrow> ExecutionProgress" where
  "existingProgressOf t = (case executionProgress t of None \<Rightarrow> idleProgress | Some e \<Rightarrow> e)"

definition progressUpdate :: "ProgressUpdate \<Rightarrow> int \<Rightarrow> Task \<Rightarrow> Task" where
  "progressUpdate progress now t =
     t\<lparr>executionProgress := Some (mergeProgress (existingProgressOf t) progress),
       updatedAt := now\<rparr>"

definition updateExecutionProgress :: "string \<Rightarrow> ProgressUpdate \<Rightarrow> int \<Rightarrow> TaskState \<Rightarrow> TaskState" where
  "updateExecutionProgress taskId progress now state =
     state\<lparr>tasks := map (\<lambda>t. if \<not> matches taskId t then t else progressUpdate progress now t) (tasks state)\<rparr>"

text \<open>
  The detail panel's \<^verbatim>\<open>hasActiveExecution\<close>: a phase is set and is none of
  \<open>idle\<close>, \<open>complete\<close>, \<open>failed\<close>.
\<close>

definition hasActiveExecution :: "Task \<Rightarrow> bool" where
  "hasActiveExecution task =
     (case executionProgress task of
        None \<Rightarrow> False
      | Some e \<Rightarrow> phase e \<noteq> EP_idle \<and> phase e \<noteq> EP_complete \<and> phase e \<noteq> EP_failed)"

subsection \<open>appendLog\<close>

text \<open>\<^verbatim>\<open>{ ...t, logs: [...(t.logs || []), log] }\<close>\<close>

definition logUpdate :: "string \<Rightarrow> Task \<Rightarrow> Task" where
  "logUpdate log t = t\<lparr>logs := Some ((case logs t of None \<Rightarrow> [] | Some ls \<Rightarrow> ls) @ [log])\<rparr>"

definition appendLog :: "string \<Rightarrow> string \<Rightarrow> TaskState \<Rightarrow> TaskState" where
  "appendLog taskId log state =
     state\<lparr>tasks := map (\<lambda>t. if matches taskId t then logUpdate log t else t) (tasks state)\<rparr>"

section \<open>Calls to the control process\<close>

text \<open>
  The renderer reaches the control process through \<^verbatim>\<open>window.electronAPI\<close>. The world
  holds the store, the calls made so far, and the control process's worker bookkeeping.
  Review feedback is a JavaScript string, a sequence of UTF-16 code units, since
  \<^verbatim>\<open>trim\<close> looks at its characters.
\<close>

type_synonym jsstring = "16 word list"

record RecoverOptions =
  targetStatus :: "TaskStatus option"
  autoRestart :: "bool option"

datatype IpcCall =
  Call_submitReview string bool "jsstring option"
| Call_recoverStuckTask string RecoverOptions

text \<open>
  Modelled from the spec: the control process's record of worker processes (the main
  process and its handlers are not among the sources). \<open>running\<close> lists the task ids
  that have a live worker; \<open>startCalls\<close> lists the invocations of the start operation.
\<close>

record Control =
  running :: "string list"
  startCalls :: "string list"

record World =
  store :: TaskState
  ipcCalls :: "IpcCall list"
  control :: Control

subsection \<open>submitReview\<close>

text \<open>
  \<open>reply\<close> is what the control process answers: \<open>None\<close> when the call throws,
  \<open>Some ok\<close> for \<^verbatim>\<open>result.success\<close>.
\<close>

definition submitReview :: "bool option \<Rightarrow> string \<Rightarrow> bool \<Rightarrow> jsstring option \<Rightarrow> int \<Rightarrow> World \<Rightarrow> bool \<times> World" where
  "submitReview reply taskId approved feedback now w =
     (let w1 = w\<lparr>ipcCalls := ipcCalls w @ [Call_submitReview taskId approved feedback]\<rparr>
      in case reply of
           None \<Rightarrow> (False, w1)
         | Some ok \<Rightarrow>
             if ok then
               (True, w1\<lparr>store := updateTaskStatus taskId (if approved then TS_done else TS_in_progress)
                                   now (store w1)\<rparr>)
             else (False, w1))"

subsection \<open>The detail panel's reject handler\<close>

text \<open>
  \<^verbatim>\<open>String.prototype.trim\<close> strips the white space and line terminators of ECMAScript
  from both ends.
\<close>

definition isWhiteSpace :: "16 word \<Rightarrow> bool" where
  "isWhiteSpace c =
     (c = 0x0009 \<or> c = 0x000A \<or> c = 0x000B \<or> c = 0x000C \<or> c = 0x000D \<or> c = 0x0020
      \<or> c = 0x00A0 \<or> c = 0x1680 \<or> (0x2000 \<le> c \<and> c \<le> 0x200A) \<or> c = 0x2028 \<or> c = 0x2029
      \<or> c = 0x202F \<or> c = 0x205F \<or> c = 0x3000 \<or> c = 0xFEFF)"

definition trim :: "jsstring \<Rightarrow> jsstring" where
  "trim s = rev (dropWhile isWhiteSpace (rev (dropWhile isWhiteSpace s)))"

record Panel =
  feedback :: jsstring
  isSubmitting :: bool

text \<open>\<^verbatim>\<open>if (!feedback.trim()) return;\<close> and then the call of \<^verbatim>\<open>submitReview\<close>.\<close>

definition handleReject :: "bool option \<Rightarrow> int \<Rightarrow> Task \<Rightarrow> Panel \<Rightarrow> World \<Rightarrow> Panel \<times> World" where
  "handleReject reply now task panel w =
     (if trim (feedback panel) = [] then (panel, w)
      else let (ok, w') = submitReview reply (task_id task) False (Some (feedback panel)) now w
           in (panel\<lparr>feedback := [], isSubmitting := False\<rparr>, w'))"

subsection \<open>recoverStuckTask\<close>

record RecoverData =
  newStatus :: TaskStatus
  data_message :: string
  data_autoRestarted :: "bool option"

record IPCResult =
  ipc_success :: bool
  ipc_data :: "RecoverData option"
  ipc_error :: "string option"

record RecoverOutcome =
  success :: bool
  outcome_message :: string
  autoRestarted :: "bool option"

text \<open>The default parameter \<^verbatim>\<open>options = { autoRestart: true }\<close>.\<close>

definition defaultRecoverOptions :: RecoverOptions where
  "defaultRecoverOptions = \<lparr>targetStatus = None, autoRestart = Some True\<rparr>"

definition effectiveOptions :: "RecoverOptions option \<Rightarrow> RecoverOptions" where
  "effectiveOptions options = (case options of None \<Rightarrow> defaultRecoverOptions | Some opts \<Rightarrow> opts)"

text \<open>
  \<open>ipc\<close> is the control process's handler: it answers \<open>Inr result\<close>, or \<open>Inl thrown\<close>
  when the call throws (\<open>Some m\<close> for an \<^verbatim>\<open>Error\<close> with message \<open>m\<close>).
\<close>

definition recoverStuckTask ::
  "(Control \<Rightarrow> string \<Rightarrow> RecoverOptions \<Rightarrow> (string option + IPCResult) \<times> Control)
   \<Rightarrow> string \<Rightarrow> RecoverOptions option \<Rightarrow> int \<Rightarrow> World \<Rightarrow> RecoverOutcome \<times> World" where
  "recoverStuckTask ipc taskId options now w =
     (let opts = effectiveOptions options;
          w1 = w\<lparr>ipcCalls := ipcCalls w @ [Call_recoverStuckTask taskId opts]\<rparr>;
          (reply, c) = ipc (control w1) taskId opts;
          w2 = w1\<lparr>control := c\<rparr>
      in case reply of
           Inl thrown \<Rightarrow>
             (\<lparr>success = False,
               outcome_message = (case thrown of Some m \<Rightarrow> m | None \<Rightarrow> ''Unknown error''),
               autoRestarted = None\<rparr>, w2)
         | Inr result \<Rightarrow>
             (case (if ipc_success result then ipc_data result else None) of
                Some d \<Rightarrow>
                  (\<lparr>success = True, outcome_message = data_message d,
                    autoRestarted = data_autoRestarted d\<rparr>,
                   w2\<lparr>store := updateTaskStatus taskId (newStatus d) now (store w2)\<rparr>)
              | None \<Rightarrow>
                  (\<lparr>success = False,
                    outcome_message = strOr (ipc_error result) ''Failed to recover task'',
                    autoRestarted = None\<rparr>, w2)))"

text \<open>
  Modelled from the spec: the start operation of the control process, which is not among
  the sources. It is invoked, and a worker comes up or does not (\<open>comesUp\<close>).
\<close>

definition startWorker :: "bool \<Rightarrow> string \<Rightarrow> Control \<Rightarrow> Control" where
  "startWorker comesUp taskId c =
     c\<lparr>running := (if comesUp then taskId # running c else running c),
       startCalls := startCalls c @ [taskId]\<rparr>"

text \<open>
  Modelled from the spec: the control process's handler of \<^verbatim>\<open>recoverStuckTask\<close>, which
  is not among the sources. With no live worker for the task, recovery succeeds: the new
  status is the target status of the caller, or else the task's natural next status
  (\<open>naturalNext\<close>), and when \<open>autoRestart\<close> is true the start operation is invoked at
  once; recovery succeeds even if that restart fails. The spec leaves open what the
  handler answers while a worker is live: \<open>liveReply\<close>.
\<close>

definition controlRecover ::
  "bool \<Rightarrow> TaskStatus \<Rightarrow> IPCResult \<Rightarrow> Control \<Rightarrow> string \<Rightarrow> RecoverOptions
   \<Rightarrow> (string option + IPCResult) \<times> Control" where
  "controlRecover comesUp naturalNext liveReply c taskId opts =
     (if taskId \<in> set (running c) then (Inr liveReply, c)
      else
        let restart = (autoRestart opts = Some True);
            d = \<lparr>newStatus = (case targetStatus opts of Some s \<Rightarrow> s | None \<Rightarrow> naturalNext),
                 data_message = ''Task recovered'',
                 data_autoRestarted = Some restart\<rparr>
        in (Inr \<lparr>ipc_success = True, ipc_data = Some d, ipc_error = None\<rparr>,
            if restart then startWorker comesUp taskId c else c))"

section \<open>Task state detection helpers\<close>

definition isIncompleteHumanReview :: "Task \<Rightarrow> bool" where
  "isIncompleteHumanReview task =
     (if task_status task \<noteq> TS_human_review then False
      else case chunks task of
             None \<Rightarrow> True
           | Some cs \<Rightarrow>
               if length cs = 0 then True
               else length (filter (hasStatus CS_completed) cs) = 0)"

text \<open>
  The overall progress the detail panel shows:
  \<^verbatim>\<open>task.executionProgress?.overallProgress || 0\<close>.
\<close>

definition shownOverall :: "Task \<Rightarrow> int" where
  "shownOverall task = (case executionProgress task of None \<Rightarrow> 0 | Some e \<Rightarrow> overallProgress e)"

text \<open>
  The data model's invariant on the review reason: it is defined only when the status is
  \<open>human_review\<close>.
\<close>

definition reviewReasonScoped :: "Task \<Rightarrow> bool" where
  "reviewReasonScoped t =
     (case reviewReason t of None \<Rightarrow> True | Some r \<Rightarrow> task_status t = TS_human_review)"

section \<open>Example data\<close>

definition mkPlanChunk :: "string \<Rightarrow> ChunkStatus \<Rightarrow> PlanChunk" where
  "mkPlanChunk i s = \<lparr>pc_id = i, pc_description = ''work'', pc_status = s, pc_verification = None\<rparr>"

definition mkPlan :: "ChunkStatus list \<Rightarrow> ImplementationPlan" where
  "mkPlan ss = \<lparr>feature = None, phases = [\<lparr>phase_chunks = map (mkPlanChunk ''c'') ss\<rparr>]\<rparr>"

definition mkTask :: "string \<Rightarrow> string \<Rightarrow> TaskStatus \<Rightarrow> ReviewReason option \<Rightarrow> string option \<Rightarrow> Task" where
  "mkTask i sp st rr src =
     \<lparr>task_id = i, specId = sp, title = ''t'', task_description = ''d'', task_status = st,
      reviewReason = rr, chunks = Some [], executionProgress = None,
      metadata = Some \<lparr>sourceType = src, category = None, priority = None,
                       complexity = None, impact = None\<rparr>,
      logs = None, createdAt = 0, updatedAt = 0\<rparr>"

definition mkState :: "Task list \<Rightarrow> TaskState" where
  "mkState ts = \<lparr>tasks = ts, selectedTaskId = None, isLoading = False, error = None\<rparr>"

definition codingTask :: Task where
  "codingTask =
     (mkTask ''1'' ''s1'' TS_in_progress None None)
       \<lparr>executionProgress :=
          Some \<lparr>phase = EP_coding, phaseProgress = 50, overallProgress = 50,
                currentChunk = None, message = None\<rparr>\<rparr>"

definition noUpdate :: ProgressUpdate where
  "noUpdate = \<lparr>upd_phase = None, upd_phaseProgress = None, upd_overallProgress = None,
                upd_currentChunk = None, upd_message = None\<rparr>"

definition reviewedTask :: Task where
  "reviewedTask = mkTask ''1'' ''s1'' TS_human_review (Some RR_completed) (Some ''manual'')"

definition otherTask :: Task where
  "otherTask = mkTask ''2'' ''s2'' TS_backlog None None"

definition mkWorld :: "Task list \<Rightarrow> World" where
  "mkWorld ts = \<lparr>store = mkState ts, ipcCalls = [], control = \<lparr>running = [], startCalls = []\<rparr>\<rparr>"

definition stillRunning :: IPCResult where
  "stillRunning = \<lparr>ipc_success = False, ipc_data = None, ipc_error = Some ''Task is running''\<rparr>"

definition blankPanel :: Panel where
  "blankPanel = \<lparr>feedback = [0x20, 0x09, 0xA0, 0x0A], isSubmitting = False\<rparr>"

definition stuckWorld :: World where
  "stuckWorld = mkWorld [mkTask ''1'' ''s1'' TS_in_progress None None]"

definition firstRecovery :: "RecoverOutcome \<times> World" where
  "firstRecovery =
     recoverStuckTask (controlRecover False TS_backlog stillRunning) ''1'' None 7 stuckWorld"

definition secondRecovery :: "RecoverOutcome \<times> World" where
  "secondRecovery =
     recoverStuckTask (controlRecover True TS_backlog stillRunning) ''1'' None 8 (snd firstRecovery)"

definition keepStopped :: "RecoverOptions option" where
  "keepStopped = Some \<lparr>targetStatus = Some TS_backlog, autoRestart = None\<rparr>"

section \<open>Status derivation\<close>

lemma planUpdate_status:
  "task_status (planUpdate plan now t) = fst (deriveStatus t (planChunks plan))"
  by (simp add: planUpdate_def Let_def)

lemma planUpdate_reason:
  "reviewReason (planUpdate plan now t) = snd (deriveStatus t (planChunks plan))"
  by (simp add: planUpdate_def Let_def)

lemma updateTaskFromPlan_nth:
  "i < length (tasks state) \<Longrightarrow>
   tasks (updateTaskFromPlan taskId plan now state) ! i =
     (if matches taskId (tasks state ! i) then planUpdate plan now (tasks state ! i)
      else tasks state ! i)"
  by (simp add: updateTaskFromPlan_def)

lemma failed_not_all_completed:
  "list_ex (hasStatus CS_failed) cs \<Longrightarrow> \<not> list_all (hasStatus CS_completed) cs"
  by (induction cs) (auto simp: hasStatus_def)

text \<open>
  C1. When the plan's chunk list is non-empty and every chunk is completed, every task the
  update applies to ends in \<open>human_review\<close> with reason \<open>completed\<close> if its
  \<^verbatim>\<open>metadata.sourceType\<close> is \<^verbatim>\<open>'manual'\<close>, and in \<open>ai_review\<close> with no reason otherwise.
\<close>

theorem all_completed_status:
  assumes "planChunks plan \<noteq> []"
    and "list_all (hasStatus CS_completed) (planChunks plan)"
    and "i < length (tasks state)"
    and "matches taskId (tasks state ! i)"
  shows "let t = tasks state ! i; t' = tasks (updateTaskFromPlan taskId plan now state) ! i
         in (isManual t \<longrightarrow> task_status t' = TS_human_review \<and> reviewReason t' = Some RR_completed)
          \<and> (\<not> isManual t \<longrightarrow> task_status t' = TS_ai_review \<and> reviewReason t' = None)"
  using assms
  by (simp add: updateTaskFromPlan_nth planUpdate_status planUpdate_reason deriveStatus_def Let_def)

theorem all_completed_status_witness:
  "planChunks (mkPlan [CS_completed, CS_completed, CS_completed]) \<noteq> []
   \<and> list_all (hasStatus CS_completed) (planChunks (mkPlan [CS_completed, CS_completed, CS_completed]))
   \<and> (0::nat) < length (tasks (mkState [mkTask ''1'' ''s1'' TS_in_progress None (Some ''manual'')]))
   \<and> matches ''s1'' (tasks (mkState [mkTask ''1'' ''s1'' TS_in_progress None (Some ''manual'')]) ! 0)
   \<and> isManual (mkTask ''1'' ''s1'' TS_in_progress None (Some ''manual''))
   \<and> task_status (tasks (updateTaskFromPlan ''s1'' (mkPlan [CS_completed, CS_completed, CS_completed]) 7
         (mkState [mkTask ''1'' ''s1'' TS_in_progress None (Some ''manual'')])) ! 0) = TS_human_review
   \<and> reviewReason (tasks (updateTaskFromPlan ''s1'' (mkPlan [CS_completed, CS_completed, CS_completed]) 7
         (mkState [mkTask ''1'' ''s1'' TS_in_progress None (Some ''manual'')])) ! 0) = Some RR_completed"
proof -
  let ?plan = "mkPlan [CS_completed, CS_completed, CS_completed]"
  let ?st = "mkState [mkTask ''1'' ''s1'' TS_in_progress None (Some ''manual'')]"
  have h1: "planChunks ?plan \<noteq> []"
    by (simp add: planChunks_def mkPlan_def)
  have h2: "list_all (hasStatus CS_completed) (planChunks ?plan)"
    by (simp add: planChunks_def mkPlan_def mkPlanChunk_def toChunk_def hasStatus_def)
  have h3: "(0::nat) < length (tasks ?st)"
    by (simp add: mkState_def)
  have h4: "matches ''s1'' (tasks ?st ! 0)"
    by (simp add: mkState_def mkTask_def matches_def)
  have h5: "isManual (mkTask ''1'' ''s1'' TS_in_progress None (Some ''manual''))"
    by (simp add: isManual_def mkTask_def)
  from all_completed_status [OF h1 h2 h3 h4, of 7] h5
  have "task_status (tasks (updateTaskFromPlan ''s1'' ?plan 7 ?st) ! 0) = TS_human_review
      \<and> reviewReason (tasks (updateTaskFromPlan ''s1'' ?plan 7 ?st) ! 0) = Some RR_completed"
    by (simp add: Let_def mkState_def)
  with h1 h2 h3 h4 h5 show ?thesis by blast
qed

text \<open>
  C2. When the plan's chunk list contains a failed chunk and not every chunk is completed,
  every task the update applies to ends in \<open>human_review\<close> with reason \<open>errors\<close>, whatever
  the number of chunks in progress or completed.
\<close>

theorem any_failed_status:
  assumes "list_ex (hasStatus CS_failed) (planChunks plan)"
    and "\<not> list_all (hasStatus CS_completed) (planChunks plan)"
    and "i < length (tasks state)"
    and "matches taskId (tasks state ! i)"
  shows "task_status (tasks (updateTaskFromPlan taskId plan now state) ! i) = TS_human_review
       \<and> reviewReason (tasks (updateTaskFromPlan taskId plan now state) ! i) = Some RR_errors"
  using assms
  by (simp add: updateTaskFromPlan_nth planUpdate_status planUpdate_reason deriveStatus_def Let_def)

theorem any_failed_status_witness:
  "list_ex (hasStatus CS_failed) (planChunks (mkPlan [CS_completed, CS_failed, CS_in_progress, CS_pending]))
   \<and> \<not> list_all (hasStatus CS_completed) (planChunks (mkPlan [CS_completed, CS_failed, CS_in_progress, CS_pending]))
   \<and> (0::nat) < length (tasks (mkState [mkTask ''1'' ''s1'' TS_in_progress None None]))
   \<and> matches ''1'' (tasks (mkState [mkTask ''1'' ''s1'' TS_in_progress None None]) ! 0)
   \<and> task_status (tasks (updateTaskFromPlan ''1'' (mkPlan [CS_completed, CS_failed, CS_in_progress, CS_pending]) 7
         (mkState [mkTask ''1'' ''s1'' TS_in_progress None None])) ! 0) = TS_human_review
   \<and> reviewReason (tasks (updateTaskFromPlan ''1'' (mkPlan [CS_completed, CS_failed, CS_in_progress, CS_pending]) 7
         (mkState [mkTask ''1'' ''s1'' TS_in_progress None None])) ! 0) = Some RR_errors"
proof -
  let ?plan = "mkPlan [CS_completed, CS_failed, CS_in_progress, CS_pending]"
  let ?st = "mkState [mkTask ''1'' ''s1'' TS_in_progress None None]"
  have h1: "list_ex (hasStatus CS_failed) (planChunks ?plan)"
    by (simp add: planChunks_def mkPlan_def mkPlanChunk_def toChunk_def hasStatus_def)
  have h2: "\<not> list_all (hasStatus CS_completed) (planChunks ?plan)"
    by (simp add: planChunks_def mkPlan_def mkPlanChunk_def toChunk_def hasStatus_def)
  have h3: "(0::nat) < length (tasks ?st)"
    by (simp add: mkState_def)
  have h4: "matches ''1'' (tasks ?st ! 0)"
    by (simp add: mkState_def mkTask_def matches_def)
  from any_failed_status [OF h1 h2 h3 h4, of 7] h1 h2 h3 h4 show ?thesis by blast
qed

text \<open>
  C3. When the plan's chunk list is empty, or every chunk in it is pending, the update
  leaves the status of every task it applies to as it was (and the review reason with it).
\<close>

theorem no_progress_status_unchanged:
  assumes "planChunks plan = [] \<or> list_all (hasStatus CS_pending) (planChunks plan)"
    and "i < length (tasks state)"
    and "matches taskId (tasks state ! i)"
  shows "task_status (tasks (updateTaskFromPlan taskId plan now state) ! i) = task_status (tasks state ! i)
       \<and> reviewReason (tasks (updateTaskFromPlan taskId plan now state) ! i) = reviewReason (tasks state ! i)"
proof -
  have np: "list_all (hasStatus CS_pending) cs \<Longrightarrow>
            \<not> list_ex (hasStatus CS_failed) cs \<and> \<not> list_ex (hasStatus CS_in_progress) cs
            \<and> \<not> list_ex (hasStatus CS_completed) cs \<and> (cs \<noteq> [] \<longrightarrow> \<not> list_all (hasStatus CS_completed) cs)"
    for cs
    by (induction cs) (auto simp: hasStatus_def)
  from assms(1) have "deriveStatus (tasks state ! i) (planChunks plan)
        = (task_status (tasks state ! i), reviewReason (tasks state ! i))"
  proof
    assume "planChunks plan = []"
    then show ?thesis by (simp add: deriveStatus_def)
  next
    assume "list_all (hasStatus CS_pending) (planChunks plan)"
    from np [OF this] show ?thesis by (auto simp: deriveStatus_def Let_def)
  qed
  with assms(2,3) show ?thesis
    by (simp add: updateTaskFromPlan_nth planUpdate_status planUpdate_reason)
qed

theorem no_progress_status_unchanged_witness:
  "(planChunks (mkPlan [CS_pending, CS_pending]) = []
      \<or> list_all (hasStatus CS_pending) (planChunks (mkPlan [CS_pending, CS_pending])))
   \<and> (0::nat) < length (tasks (mkState [mkTask ''1'' ''s1'' TS_backlog None None]))
   \<and> matches ''1'' (tasks (mkState [mkTask ''1'' ''s1'' TS_backlog None None]) ! 0)
   \<and> task_status (tasks (updateTaskFromPlan ''1'' (mkPlan [CS_pending, CS_pending]) 7
         (mkState [mkTask ''1'' ''s1'' TS_backlog None None])) ! 0) = TS_backlog"
proof -
  let ?plan = "mkPlan [CS_pending, CS_pending]"
  let ?st = "mkState [mkTask ''1'' ''s1'' TS_backlog None None]"
  have h1: "planChunks ?plan = [] \<or> list_all (hasStatus CS_pending) (planChunks ?plan)"
    by (simp add: planChunks_def mkPlan_def mkPlanChunk_def toChunk_def hasStatus_def)
  have h2: "(0::nat) < length (tasks ?st)"
    by (simp add: mkState_def)
  have h3: "matches ''1'' (tasks ?st ! 0)"
    by (simp add: mkState_def mkTask_def matches_def)
  have "task_status (tasks ?st ! 0) = TS_backlog"
    by (simp add: mkState_def mkTask_def)
  with no_progress_status_unchanged [OF h1 h2 h3, of 7] h1 h2 h3 show ?thesis by simp
qed

section \<open>Incomplete human review\<close>

text \<open>
  C4. \<open>isIncompleteHumanReview\<close> is true exactly when the task is in \<open>human_review\<close> and its
  chunk list is absent, empty, or has no completed chunk; in any other status it is false.
\<close>

theorem isIncompleteHumanReview_iff:
  "(isIncompleteHumanReview task \<longleftrightarrow>
      task_status task = TS_human_review
      \<and> (case chunks task of
            None \<Rightarrow> True
          | Some cs \<Rightarrow> cs = [] \<or> length (filter (hasStatus CS_completed) cs) = 0))
   \<and> (task_status task \<noteq> TS_human_review \<longrightarrow> \<not> isIncompleteHumanReview task)"
  by (auto simp: isIncompleteHumanReview_def split: option.splits)

theorem isIncompleteHumanReview_iff_witness:
  "isIncompleteHumanReview (mkTask ''1'' ''s1'' TS_human_review None None)
   \<and> TS_in_progress \<noteq> TS_human_review
   \<and> \<not> isIncompleteHumanReview (mkTask ''1'' ''s1'' TS_in_progress None None)"
  using isIncompleteHumanReview_iff [of "mkTask ''1'' ''s1'' TS_human_review None None"]
    isIncompleteHumanReview_iff [of "mkTask ''1'' ''s1'' TS_in_progress None None"]
  by (simp add: mkTask_def)

section \<open>Execution progress\<close>

lemma updateExecutionProgress_nth:
  "i < length (tasks state) \<Longrightarrow>
   tasks (updateExecutionProgress taskId progress now state) ! i =
     (if matches taskId (tasks state ! i) then progressUpdate progress now (tasks state ! i)
      else tasks state ! i)"
  by (simp add: updateExecutionProgress_def)

lemma spread_None: "spread old None = old"
  by (simp add: spread_def)

lemma spread_Some: "spread old (Some v) = v"
  by (simp add: spread_def)

text \<open>
  C6. \<open>updateExecutionProgress\<close> merges the update into the existing progress of every
  task it applies to (the idle progress when the task has none): a field absent from the
  update keeps its prior value, a field present takes the update's value, and no field of
  the task other than \<open>executionProgress\<close> and \<open>updatedAt\<close> changes.
\<close>

theorem updateExecutionProgress_merges:
  assumes "i < length (tasks state)"
    and "matches taskId (tasks state ! i)"
  shows "let t = tasks state ! i;
             t' = tasks (updateExecutionProgress taskId progress now state) ! i;
             old = (case executionProgress t of None \<Rightarrow> idleProgress | Some e \<Rightarrow> e)
         in (\<exists>new. executionProgress t' = Some new
              \<and> (upd_phase progress = None \<longrightarrow> phase new = phase old)
              \<and> (upd_phaseProgress progress = None \<longrightarrow> phaseProgress new = phaseProgress old)
              \<and> (upd_overallProgress progress = None \<longrightarrow> overallProgress new = overallProgress old)
              \<and> (upd_currentChunk progress = None \<longrightarrow> currentChunk new = currentChunk old)
              \<and> (upd_message progress = None \<longrightarrow> message new = message old)
              \<and> (\<forall>v. upd_phase progress = Some v \<longrightarrow> phase new = v)
              \<and> (\<forall>v. upd_phaseProgress progress = Some v \<longrightarrow> phaseProgress new = v)
              \<and> (\<forall>v. upd_overallProgress progress = Some v \<longrightarrow> overallProgress new = v)
              \<and> (\<forall>v. upd_currentChunk progress = Some v \<longrightarrow> currentChunk new = v)
              \<and> (\<forall>v. upd_message progress = Some v \<longrightarrow> message new = v))
          \<and> t'\<lparr>executionProgress := executionProgress t, updatedAt := updatedAt t\<rparr> = t"
  using assms
  by (simp add: updateExecutionProgress_nth progressUpdate_def mergeProgress_def
        existingProgressOf_def spread_None spread_Some Let_def)

theorem updateExecutionProgress_merges_witness:
  "(0::nat) < length (tasks (mkState [codingTask]))
   \<and> matches ''1'' (tasks (mkState [codingTask]) ! 0)
   \<and> executionProgress (tasks (updateExecutionProgress ''1''
         (noUpdate\<lparr>upd_message := Some (Some ''half way'')\<rparr>) 7 (mkState [codingTask])) ! 0)
       = Some \<lparr>phase = EP_coding, phaseProgress = 50, overallProgress = 50,
               currentChunk = None, message = Some ''half way''\<rparr>"
proof -
  let ?st = "mkState [codingTask]"
  let ?u = "noUpdate\<lparr>upd_message := Some (Some ''half way'')\<rparr>"
  have h1: "(0::nat) < length (tasks ?st)"
    by (simp add: mkState_def)
  have h2: "matches ''1'' (tasks ?st ! 0)"
    by (simp add: mkState_def codingTask_def mkTask_def matches_def)
  have old: "executionProgress (tasks ?st ! 0)
      = Some \<lparr>phase = EP_coding, phaseProgress = 50, overallProgress = 50,
               currentChunk = None, message = None\<rparr>"
    by (simp add: mkState_def codingTask_def)
  from updateExecutionProgress_merges [OF h1 h2, of ?u 7] old
  have "executionProgress (tasks (updateExecutionProgress ''1'' ?u 7 ?st) ! 0)
       = Some \<lparr>phase = EP_coding, phaseProgress = 50, overallProgress = 50,
               currentChunk = None, message = Some ''half way''\<rparr>"
    by (auto simp: Let_def noUpdate_def)
  with h1 h2 show ?thesis by blast
qed

text \<open>
  C7, as stated, fails: the store keeps no lower bound on \<open>overallProgress\<close>. A task in
  the \<open>coding\<close> phase at 50 that receives an update carrying 30 is at 30 afterwards, its
  phase still active.
\<close>

theorem overallProgress_decreases:
  "hasActiveExecution codingTask
   \<and> hasActiveExecution (tasks (updateExecutionProgress ''1''
         (noUpdate\<lparr>upd_overallProgress := Some 30\<rparr>) 7 (mkState [codingTask])) ! 0)
   \<and> shownOverall codingTask = 50
   \<and> shownOverall (tasks (updateExecutionProgress ''1''
         (noUpdate\<lparr>upd_overallProgress := Some 30\<rparr>) 7 (mkState [codingTask])) ! 0) = 30
   \<and> shownOverall (tasks (updateExecutionProgress ''1''
         (noUpdate\<lparr>upd_overallProgress := Some 30\<rparr>) 7 (mkState [codingTask])) ! 0)
       < shownOverall codingTask"
  by (simp add: hasActiveExecution_def shownOverall_def codingTask_def mkTask_def mkState_def
        noUpdate_def updateExecutionProgress_def matches_def progressUpdate_def mergeProgress_def
        existingProgressOf_def spread_def)

text \<open>
  C7, amended. For a task whose phase is active, \<open>updateExecutionProgress\<close> sets
  \<open>overallProgress\<close> to the update's value when the update carries one and leaves it as
  it was otherwise; so it does not decrease across an update that omits
  \<open>overallProgress\<close> or carries a value not below the current one.
\<close>

theorem overallProgress_follows_update:
  assumes "i < length (tasks state)"
    and "matches taskId (tasks state ! i)"
    and "hasActiveExecution (tasks state ! i)"
  shows "let t = tasks state ! i;
             t' = tasks (updateExecutionProgress taskId progress now state) ! i
         in shownOverall t' = (case upd_overallProgress progress of None \<Rightarrow> shownOverall t | Some v \<Rightarrow> v)
          \<and> ((case upd_overallProgress progress of None \<Rightarrow> True | Some v \<Rightarrow> shownOverall t \<le> v)
               \<longrightarrow> shownOverall t \<le> shownOverall t')"
  using assms
  by (auto simp: updateExecutionProgress_nth progressUpdate_def mergeProgress_def
        existingProgressOf_def spread_def Let_def shownOverall_def hasActiveExecution_def
        split: option.splits)

theorem overallProgress_follows_update_witness:
  "(0::nat) < length (tasks (mkState [codingTask]))
   \<and> matches ''1'' (tasks (mkState [codingTask]) ! 0)
   \<and> hasActiveExecution (tasks (mkState [codingTask]) ! 0)
   \<and> shownOverall (tasks (mkState [codingTask]) ! 0) \<le> 60
   \<and> shownOverall (tasks (updateExecutionProgress ''1''
         (noUpdate\<lparr>upd_overallProgress := Some 60\<rparr>) 7 (mkState [codingTask])) ! 0) = 60"
proof -
  let ?st = "mkState [codingTask]"
  let ?u = "noUpdate\<lparr>upd_overallProgress := Some 60\<rparr>"
  have h1: "(0::nat) < length (tasks ?st)"
    by (simp add: mkState_def)
  have h2: "matches ''1'' (tasks ?st ! 0)"
    by (simp add: mkState_def codingTask_def mkTask_def matches_def)
  have h3: "hasActiveExecution (tasks ?st ! 0)"
    by (simp add: mkState_def codingTask_def hasActiveExecution_def)
  have h4: "shownOverall (tasks ?st ! 0) \<le> 60"
    by (simp add: mkState_def codingTask_def shownOverall_def)
  from overallProgress_follows_update [OF h1 h2 h3, of ?u 7]
  have "shownOverall (tasks (updateExecutionProgress ''1'' ?u 7 ?st) ! 0) = 60"
    by (simp add: Let_def noUpdate_def)
  with h1 h2 h3 h4 show ?thesis by blast
qed

section \<open>The review reason after a status change\<close>

text \<open>
  C8. \<open>updateTaskStatus\<close> writes the status and the time only. A task in \<open>human_review\<close>
  with reason \<open>completed\<close> that is moved to \<open>done\<close>, or sent back to \<open>in_progress\<close> by
  a rejected review, still carries the reason: the invariant that \<open>updateTaskFromPlan\<close>
  maintains is lost here.
\<close>

theorem updateTaskStatus_keeps_reviewReason:
  "reviewReasonScoped reviewedTask
   \<and> task_status (tasks (updateTaskStatus ''1'' TS_done 7 (mkState [reviewedTask])) ! 0) = TS_done
   \<and> reviewReason (tasks (updateTaskStatus ''1'' TS_done 7 (mkState [reviewedTask])) ! 0)
       = Some RR_completed
   \<and> \<not> reviewReasonScoped (tasks (updateTaskStatus ''1'' TS_done 7 (mkState [reviewedTask])) ! 0)
   \<and> fst (submitReview (Some True) ''1'' False None 7 (mkWorld [reviewedTask]))
   \<and> task_status (tasks (store (snd (submitReview (Some True) ''1'' False None 7
         (mkWorld [reviewedTask])))) ! 0) = TS_in_progress
   \<and> reviewReason (tasks (store (snd (submitReview (Some True) ''1'' False None 7
         (mkWorld [reviewedTask])))) ! 0) = Some RR_completed"
  by (simp add: reviewReasonScoped_def reviewedTask_def mkTask_def mkState_def mkWorld_def
        updateTaskStatus_def submitReview_def matches_def Let_def)

section \<open>Rejecting a review\<close>

lemma trim_empty_iff: "trim s = [] \<longleftrightarrow> list_all isWhiteSpace s"
proof
  assume "list_all isWhiteSpace s"
  then have d: "dropWhile isWhiteSpace s = []"
    by (simp add: list_all_iff)
  show "trim s = []"
    unfolding trim_def d by simp
next
  assume e: "trim s = []"
  show "list_all isWhiteSpace s"
  proof (rule ccontr)
    assume "\<not> list_all isWhiteSpace s"
    then have ne: "dropWhile isWhiteSpace s \<noteq> []"
      by (simp add: list_all_iff)
    then have "\<not> isWhiteSpace (hd (dropWhile isWhiteSpace s))"
      by (rule hd_dropWhile)
    moreover from e have "\<forall>c \<in> set (dropWhile isWhiteSpace s). isWhiteSpace c"
      by (simp add: trim_def)
    ultimately show False
      using ne by (meson hd_in_set)
  qed
qed

text \<open>
  C9. When the feedback is empty or consists of white space only, the reject handler
  returns at once: the panel and the world are as before, so \<open>submitReview\<close> is not
  invoked and nothing reaches the control process.
\<close>

theorem blank_feedback_rejected_locally:
  assumes "list_all isWhiteSpace (feedback panel)"
  shows "handleReject reply now task panel w = (panel, w)"
  using assms by (simp add: handleReject_def trim_empty_iff)

theorem blank_feedback_rejected_locally_witness:
  "list_all isWhiteSpace (feedback blankPanel)
   \<and> handleReject (Some True) 7 reviewedTask blankPanel (mkWorld [reviewedTask])
       = (blankPanel, mkWorld [reviewedTask])
   \<and> ipcCalls (snd (handleReject (Some True) 7 reviewedTask blankPanel (mkWorld [reviewedTask]))) = []"
proof -
  have h: "list_all isWhiteSpace (feedback blankPanel)"
    by (simp add: blankPanel_def isWhiteSpace_def)
  from blank_feedback_rejected_locally [OF h, of "Some True" 7 reviewedTask "mkWorld [reviewedTask]"] h
  show ?thesis by (simp add: mkWorld_def)
qed

text \<open>Any other feedback is sent on, as a rejection, with the text as typed.\<close>

lemma feedback_reaches_control:
  assumes "\<not> list_all isWhiteSpace (feedback panel)"
  shows "ipcCalls (snd (handleReject reply now task panel w))
       = ipcCalls w @ [Call_submitReview (task_id task) False (Some (feedback panel))]"
  using assms
  by (auto simp: handleReject_def trim_empty_iff submitReview_def Let_def split: option.splits prod.splits)

section \<open>Which tasks an action touches\<close>

text \<open>
  C10. Each of \<open>updateTask\<close>, \<open>updateTaskStatus\<close>, \<open>updateTaskFromPlan\<close>,
  \<open>updateExecutionProgress\<close> and \<open>appendLog\<close> leaves a task unchanged when both its id
  and its spec id differ from the identifier, applies its update when either of them
  equals the identifier, and keeps the number and order of the tasks.
\<close>

theorem only_matching_tasks_updated:
  assumes "i < length (tasks state)"
  shows "let t = tasks state ! i
         in (task_id t \<noteq> taskId \<and> specId t \<noteq> taskId \<longrightarrow>
               tasks (updateTask taskId updates state) ! i = t
             \<and> tasks (updateTaskStatus taskId status now state) ! i = t
             \<and> tasks (updateTaskFromPlan taskId plan now state) ! i = t
             \<and> tasks (updateExecutionProgress taskId progress now state) ! i = t
             \<and> tasks (appendLog taskId log state) ! i = t)
          \<and> (task_id t = taskId \<or> specId t = taskId \<longrightarrow>
               tasks (updateTask taskId updates state) ! i = applyUpdates updates t
             \<and> tasks (updateTaskStatus taskId status now state) ! i
                 = t\<lparr>task_status := status, updatedAt := now\<rparr>
             \<and> tasks (updateTaskFromPlan taskId plan now state) ! i = planUpdate plan now t
             \<and> tasks (updateExecutionProgress taskId progress now state) ! i
                 = progressUpdate progress now t
             \<and> tasks (appendLog taskId log state) ! i = logUpdate log t)
          \<and> length (tasks (updateTask taskId updates state)) = length (tasks state)
          \<and> length (tasks (updateTaskStatus taskId status now state)) = length (tasks state)
          \<and> length (tasks (updateTaskFromPlan taskId plan now state)) = length (tasks state)
          \<and> length (tasks (updateExecutionProgress taskId progress now state)) = length (tasks state)
          \<and> length (tasks (appendLog taskId log state)) = length (tasks state)"
  using assms
  by (simp add: Let_def updateTask_def updateTaskStatus_def updateTaskFromPlan_def
        updateExecutionProgress_def appendLog_def matches_def)

theorem only_matching_tasks_updated_witness:
  "(1::nat) < length (tasks (mkState [reviewedTask, otherTask]))
   \<and> task_id (tasks (mkState [reviewedTask, otherTask]) ! 1) \<noteq> ''s1''
   \<and> specId (tasks (mkState [reviewedTask, otherTask]) ! 1) \<noteq> ''s1''
   \<and> tasks (appendLog ''s1'' ''line'' (mkState [reviewedTask, otherTask])) ! 1 = otherTask
   \<and> tasks (updateTaskStatus ''s1'' TS_done 7 (mkState [reviewedTask, otherTask])) ! 1 = otherTask
   \<and> specId (tasks (mkState [reviewedTask, otherTask]) ! 0) = ''s1''
   \<and> logs (tasks (appendLog ''s1'' ''line'' (mkState [reviewedTask, otherTask])) ! 0) = Some [''line'']
   \<and> task_status (tasks (updateTaskStatus ''s1'' TS_done 7 (mkState [reviewedTask, otherTask])) ! 0) = TS_done"
proof -
  let ?st = "mkState [reviewedTask, otherTask]"
  have h1: "(1::nat) < length (tasks ?st)" and h0: "(0::nat) < length (tasks ?st)"
    by (simp_all add: mkState_def)
  have t1: "tasks ?st ! 1 = otherTask" and t0: "tasks ?st ! 0 = reviewedTask"
    by (simp_all add: mkState_def)
  have n1: "task_id otherTask \<noteq> ''s1'' \<and> specId otherTask \<noteq> ''s1''"
    by (simp add: otherTask_def mkTask_def)
  have m0: "specId reviewedTask = ''s1''"
    by (simp add: reviewedTask_def mkTask_def)
  have l0: "logs reviewedTask = None"
    by (simp add: reviewedTask_def mkTask_def)
  from only_matching_tasks_updated [OF h1, of "''s1''" _ TS_done 7 _ _ "''line''"] t1 n1
  have a: "tasks (appendLog ''s1'' ''line'' ?st) ! 1 = otherTask
         \<and> tasks (updateTaskStatus ''s1'' TS_done 7 ?st) ! 1 = otherTask"
    by (simp add: Let_def)
  from only_matching_tasks_updated [OF h0, of "''s1''" _ TS_done 7 _ _ "''line''"] t0 m0 l0
  have b: "logs (tasks (appendLog ''s1'' ''line'' ?st) ! 0) = Some [''line'']
         \<and> task_status (tasks (updateTaskStatus ''s1'' TS_done 7 ?st) ! 0) = TS_done"
    by (simp add: Let_def logUpdate_def)
  from h1 t1 t0 n1 m0 a b show ?thesis by simp
qed

section \<open>Recovering a stuck task\<close>

lemma recoverStuckTask_no_live:
  assumes "taskId \<notin> set (running (control w))"
  shows "success (fst (recoverStuckTask (controlRecover up nn live) taskId options now w))"
    and "control (snd (recoverStuckTask (controlRecover up nn live) taskId options now w))
         = (if autoRestart (effectiveOptions options) = Some True
            then startWorker up taskId (control w) else control w)"
  using assms
  by (simp_all add: recoverStuckTask_def controlRecover_def Let_def)

lemma startCalls_startWorker: "startCalls (startWorker up taskId c) = startCalls c @ [taskId]"
  by (simp add: startWorker_def)

text \<open>
  C5, as stated, fails: the options of \<open>recoverStuckTask\<close> default to
  \<^verbatim>\<open>{ autoRestart: true }\<close>. Two calls that pass no options, on a task with no live
  worker at either call (the first restart does not bring a worker up), both succeed and
  both invoke the start operation, though neither call asked for a restart explicitly.
\<close>

theorem recoverStuckTask_default_restarts:
  "running (control stuckWorld) = [] \<and> startCalls (control stuckWorld) = []
   \<and> success (fst firstRecovery)
   \<and> running (control (snd firstRecovery)) = []
   \<and> success (fst secondRecovery)
   \<and> startCalls (control (snd secondRecovery)) = [''1'', ''1'']
   \<and> ipcCalls (snd secondRecovery)
       = [Call_recoverStuckTask ''1'' \<lparr>targetStatus = None, autoRestart = Some True\<rparr>,
          Call_recoverStuckTask ''1'' \<lparr>targetStatus = None, autoRestart = Some True\<rparr>]"
  by (simp add: firstRecovery_def secondRecovery_def stuckWorld_def mkWorld_def recoverStuckTask_def
        controlRecover_def startWorker_def effectiveOptions_def defaultRecoverOptions_def Let_def)

text \<open>
  C5, amended. Two calls of \<open>recoverStuckTask\<close> in succession, on a task with no live
  worker at either call, both yield \<open>success = true\<close>, and the start operation is invoked
  on a call exactly when the options in effect for that call have \<open>autoRestart = true\<close>,
  where a call without options takes the default \<^verbatim>\<open>{ autoRestart: true }\<close>.
\<close>

theorem recoverStuckTask_twice:
  assumes "first = recoverStuckTask (controlRecover up1 nn1 live1) taskId options1 now1 w"
    and "second = recoverStuckTask (controlRecover up2 nn2 live2) taskId options2 now2 (snd first)"
    and "taskId \<notin> set (running (control w))"
    and "taskId \<notin> set (running (control (snd first)))"
  shows "success (fst first) \<and> success (fst second)
       \<and> startCalls (control (snd second))
           = startCalls (control w)
             @ (if autoRestart (effectiveOptions options1) = Some True then [taskId] else [])
             @ (if autoRestart (effectiveOptions options2) = Some True then [taskId] else [])"
proof -
  from assms(1,3) have s1: "success (fst first)"
    by (simp add: recoverStuckTask_no_live(1))
  from assms(2,4) have s2: "success (fst second)"
    by (simp add: recoverStuckTask_no_live(1))
  from assms(1,3) have c1: "startCalls (control (snd first))
      = startCalls (control w)
        @ (if autoRestart (effectiveOptions options1) = Some True then [taskId] else [])"
    by (simp add: recoverStuckTask_no_live(2) startCalls_startWorker)
  from assms(2,4) have c2: "startCalls (control (snd second))
      = startCalls (control (snd first))
        @ (if autoRestart (effectiveOptions options2) = Some True then [taskId] else [])"
    by (simp add: recoverStuckTask_no_live(2) startCalls_startWorker)
  from s1 s2 c1 c2 show ?thesis by simp
qed

theorem recoverStuckTask_twice_witness:
  "''1'' \<notin> set (running (control stuckWorld))
   \<and> ''1'' \<notin> set (running (control (snd (recoverStuckTask
         (controlRecover True TS_backlog stillRunning) ''1'' keepStopped 7 stuckWorld))))
   \<and> success (fst (recoverStuckTask (controlRecover True TS_backlog stillRunning) ''1'' keepStopped 7
         stuckWorld))
   \<and> success (fst (recoverStuckTask (controlRecover True TS_backlog stillRunning) ''1'' keepStopped 8
         (snd (recoverStuckTask (controlRecover True TS_backlog stillRunning) ''1'' keepStopped 7
            stuckWorld))))
   \<and> startCalls (control (snd (recoverStuckTask
         (controlRecover True TS_backlog stillRunning) ''1'' keepStopped 8
         (snd (recoverStuckTask (controlRecover True TS_backlog stillRunning) ''1'' keepStopped 7
            stuckWorld))))) = []"
proof -
  let ?h = "controlRecover True TS_backlog stillRunning"
  let ?first = "recoverStuckTask ?h ''1'' keepStopped 7 stuckWorld"
  let ?second = "recoverStuckTask ?h ''1'' keepStopped 8 (snd ?first)"
  have h3: "''1'' \<notin> set (running (control stuckWorld))"
    by (simp add: stuckWorld_def mkWorld_def)
  have h4: "''1'' \<notin> set (running (control (snd ?first)))"
    by (simp add: stuckWorld_def mkWorld_def recoverStuckTask_def controlRecover_def Let_def
          keepStopped_def effectiveOptions_def)
  have e: "startCalls (control stuckWorld) = []"
    "autoRestart (effectiveOptions keepStopped) \<noteq> Some True"
    by (simp_all add: stuckWorld_def mkWorld_def keepStopped_def effectiveOptions_def)
  from recoverStuckTask_twice [OF refl refl h3 h4, of True TS_backlog stillRunning keepStopped 8] e
  have "success (fst ?first) \<and> success (fst ?second) \<and> startCalls (control (snd ?second)) = []"
    by simp
  with h3 h4 show ?thesis by blast
qed

end
